theory Spec2Isabelle
  imports Main "HOL-Library.AList"
begin

section \<open>Shared vocabulary\<close>

text \<open>
  The Python exceptions that the modelled functions raise or catch, and the result of a
  call: a value, or an exception that leaves the function. A state change made before
  the raise stays, so functions return the state next to the outcome.
\<close>

datatype py_exception =
  ValueError | ZeroDivisionError | TypeError | AttributeError | ClientError | OtherError

datatype 'r outcome = Return 'r | Raise py_exception

text \<open>The logbook levels used by \<^verbatim>\<open>utils/log.py\<close>'s global \<^verbatim>\<open>logger\<close>.\<close>

datatype log_level = DEBUG | INFO | WARNING | ERROR

section \<open>The scheduler: \<^verbatim>\<open>utils/heartbeat.py\<close>, class HeartBeat\<close>

text \<open>
  One entry of \<^verbatim>\<open>self._tasks\<close>: the dict
  \<^verbatim>\<open>{"func": func, "interval": interval, "args": args, "kwargs": kwargs}\<close>.
  \<open>'f\<close> is the identity of a callable, \<open>'a\<close> the type of an argument value.
\<close>

record ('f, 'a) task =
  func :: 'f
  interval :: int
  args :: "'a list"
  kwargs :: "(string \<times> 'a) list"

text \<open>
  \<^verbatim>\<open>self._tasks\<close> is a Python dict: keys are unique and iteration follows insertion
  order, so it is an association list, written with \<open>AList.update\<close> (replace in place,
  or append) and \<open>AList.delete\<close>.
\<close>

record ('f, 'a) HeartBeat =
  count :: int
  tick_interval :: int
  is_running :: bool
  tasks :: "(string \<times> ('f, 'a) task) list"
  print_interval :: int
  broadcast_interval :: int

text \<open>
  \<^verbatim>\<open>HeartBeat.__init__\<close>; the two configured intervals come from
  \<^verbatim>\<open>settings.get_heartbeat_config()\<close> and are parameters here.
\<close>

definition HeartBeat_init :: "int \<Rightarrow> int \<Rightarrow> ('f, 'a) HeartBeat" where
  "HeartBeat_init p b =
     \<lparr>count = 0, tick_interval = 1, is_running = False, tasks = [],
      print_interval = p, broadcast_interval = b\<rparr>"

text \<open>
  What a scheduler call does besides changing its own fields: a log line, a callback
  called with its stored arguments to make its coroutine for
  \<^verbatim>\<open>create_task\<close>, the next tick handed to \<^verbatim>\<open>call_later\<close>, the liveness
  broadcast hook.
\<close>

datatype ('f, 'a) hb_event =
    HbLog log_level
  | Launch string 'f "'a list" "(string \<times> 'a) list"
  | CallLater int
  | BroadcastAlive

text \<open>
  \<^verbatim>\<open>tools.get_uuid1()\<close> is \<^verbatim>\<open>str(uuid.uuid1())\<close>: an external generator. The
  \<open>n\<close>-th identifier it hands out is \<open>uuid1 n\<close>, a parameter; the number of
  identifiers handed out so far is threaded next to the scheduler.
\<close>

definition get_uuid1 :: "(nat \<Rightarrow> string) \<Rightarrow> nat \<Rightarrow> string \<times> nat" where
  "get_uuid1 uuid1 issued = (uuid1 issued, Suc issued)"

text \<open>
  \<^verbatim>\<open>HeartBeat.register\<close>. After the task is stored and before the identifier is
  returned, the log line formats \<^verbatim>\<open>func.__name__\<close>. A function made by \<^verbatim>\<open>def\<close> and
  a bound method have that attribute; a \<^verbatim>\<open>functools.partial\<close> object and an instance
  with \<^verbatim>\<open>__call__\<close> do not, and reading it raises AttributeError. \<open>named f\<close> says
  whether the callable \<open>f\<close> has the attribute.
\<close>

definition register ::
  "(nat \<Rightarrow> string) \<Rightarrow> ('f \<Rightarrow> bool) \<Rightarrow> 'f \<Rightarrow> int \<Rightarrow> 'a list \<Rightarrow> (string \<times> 'a) list \<Rightarrow>
   ('f, 'a) HeartBeat \<times> nat \<Rightarrow>
   string outcome \<times> ('f, 'a) hb_event list \<times> ('f, 'a) HeartBeat \<times> nat" where
  "register uuid1 named f i as kws hg =
     (case hg of (h, issued) \<Rightarrow>
        if i \<le> 0 then (Raise ValueError, [], h, issued)
        else
          (case get_uuid1 uuid1 issued of (task_id, issued') \<Rightarrow>
             (let h' = h\<lparr>tasks := AList.update task_id
                         \<lparr>func = f, interval = i, args = as, kwargs = kws\<rparr> (tasks h)\<rparr>
              in if named f then (Return task_id, [HbLog INFO], h', issued')
                 else (Raise AttributeError, [], h', issued'))))"

text \<open>
  \<^verbatim>\<open>HeartBeat.unregister\<close>. The log line after \<^verbatim>\<open>self._tasks.pop(task_id)\<close> formats
  the \<^verbatim>\<open>__name__\<close> of the removed task's callable in the same way.
\<close>

definition unregister ::
  "('f \<Rightarrow> bool) \<Rightarrow> string \<Rightarrow> ('f, 'a) HeartBeat \<Rightarrow>
   bool outcome \<times> ('f, 'a) hb_event list \<times> ('f, 'a) HeartBeat" where
  "unregister named task_id h =
     (case map_of (tasks h) task_id of
        Some t \<Rightarrow>
          (let h' = h\<lparr>tasks := AList.delete task_id (tasks h)\<rparr>
           in if named (func t) then (Return True, [HbLog INFO], h')
              else (Raise AttributeError, [], h'))
      | None \<Rightarrow> (Return False, [HbLog WARNING], h))"







text \<open>
  The task table of a scheduler that was filled through \<open>register\<close> alone: the keys
  are those of a dict, and every stored interval is positive, as the check in
  \<open>register\<close> demands.
\<close>

definition tasks_ok :: "(string \<times> ('f, 'a) task) list \<Rightarrow> bool" where
  "tasks_ok ts \<longleftrightarrow> distinct (map fst ts) \<and> list_all (\<lambda>kt. 0 < interval (snd kt)) ts"

text \<open>
  Inputs of the example scenario: a generator whose first identifier is \<open>task-A\<close> and
  whose later ones are \<open>task-B\<close>, and the running scheduler holding task A (every
  3 ticks) and task B (every 5 ticks), its counter at 0. Where a callable without
  \<^verbatim>\<open>__name__\<close> is needed, callables are given as \<open>Some\<close> of their name, and
  \<open>None\<close> is a \<^verbatim>\<open>functools.partial\<close> object.
\<close>

definition has_name :: "string option \<Rightarrow> bool" where
  "has_name f \<longleftrightarrow> f \<noteq> None"

definition scenario_uuid1 :: "nat \<Rightarrow> string" where
  "scenario_uuid1 n = (if n = 0 then ''task-A'' else ''task-B'')"


section \<open>The connection: \<^verbatim>\<open>utils/websocket.py\<close>, class WebSocketClient\<close>

datatype ConnectionState = DISCONNECTED | CONNECTING | CONNECTED | RECONNECTING | CLOSED

text \<open>
  A decoded JSON value, as \<^verbatim>\<open>json.loads\<close> returns it: a dict has unique keys and is
  read with \<open>map_of\<close>. A number with a fraction is kept as its literal.
\<close>

datatype json =
    JNull
  | JBool bool
  | JInt int
  | JFloat string
  | JStr string
  | JList "json list"
  | JDict "(string \<times> json) list"

text \<open>
  What \<^verbatim>\<open>self.heartbeat_msg\<close> can hold. It is declared
  \<^verbatim>\<open>Optional[Union[str, Dict[str, Any]]]\<close>; Python does not enforce the declaration, so
  a callable (an object that is neither \<^verbatim>\<open>dict\<close> nor \<^verbatim>\<open>str\<close>) can be stored
  too. \<open>'g\<close> is the identity of such a callable.
\<close>

datatype 'g heartbeat_payload =
    PNone
  | PDict "(string \<times> json) list"
  | PStr string
  | PCallable 'g

text \<open>Python truth value of the payload: \<^verbatim>\<open>None\<close>, \<^verbatim>\<open>{}\<close> and \<^verbatim>\<open>""\<close> are false.\<close>

fun truthy :: "'g heartbeat_payload \<Rightarrow> bool" where
  "truthy PNone = False"
| "truthy (PDict d) = (d \<noteq> [])"
| "truthy (PStr s) = (s \<noteq> [])"
| "truthy (PCallable g) = True"

text \<open>
  What a connection does to the outside, in the order it does it: log lines (the text
  is an English gloss of the source's message), calls on the aiohttp session and socket,
  the adapter hooks, the backoff sleep and the receive loop handed to
  \<^verbatim>\<open>asyncio.create_task\<close>. \<open>WsConnect\<close> is the call of
  \<^verbatim>\<open>session.ws_connect\<close>, \<open>WsConnected\<close> its return with a socket.
\<close>

datatype ws_event =
    Log log_level string
  | WsConnect
  | WsConnected
  | OnConnect
  | OnDisconnect
  | SpawnReceiveLoop
  | Sleep int
  | WsSendJson "(string \<times> json) list"
  | WsSendStr string
  | WsClose
  | SessionClose

text \<open>
  The fields of a WebSocketClient that its methods read or write. \<open>session\<close> and
  \<open>ws\<close> are \<open>None\<close> or a handle with its \<^verbatim>\<open>closed\<close> flag. \<open>trace\<close> is not a
  field of the class: it records the events, oldest first. The url, headers and proxy are
  only handed to \<^verbatim>\<open>ws_connect\<close> and are left out.
\<close>

record 'g WebSocketClient =
  check_conn_interval :: int
  send_hb_interval :: int
  auto_reconnect :: bool
  max_reconnect_attempts :: int
  session :: "bool option"
  ws :: "bool option"
  state :: ConnectionState
  reconnect_count :: int
  heartbeat_msg :: "'g heartbeat_payload"
  check_task_id :: "string option"
  heartbeat_task_id :: "string option"
  trace :: "ws_event list"

text \<open>\<^verbatim>\<open>WebSocketClient.__init__\<close>, with its four configuration arguments.\<close>

definition WebSocketClient_init :: "int \<Rightarrow> int \<Rightarrow> bool \<Rightarrow> int \<Rightarrow> 'g WebSocketClient" where
  "WebSocketClient_init check_iv hb_iv auto max_attempts =
     \<lparr>check_conn_interval = check_iv, send_hb_interval = hb_iv, auto_reconnect = auto,
      max_reconnect_attempts = max_attempts, session = None, ws = None,
      state = DISCONNECTED, reconnect_count = 0, heartbeat_msg = PNone,
      check_task_id = None, heartbeat_task_id = None, trace = []\<rparr>"

definition emit :: "ws_event \<Rightarrow> 'g WebSocketClient \<Rightarrow> 'g WebSocketClient" where
  "emit e c = c\<lparr>trace := trace c @ [e]\<rparr>"

text \<open>The property \<^verbatim>\<open>is_connected\<close>.\<close>

definition is_connected :: "'g WebSocketClient \<Rightarrow> bool" where
  "is_connected c \<longleftrightarrow> state c = CONNECTED \<and> ws c = Some False"

text \<open>
  What the environment answers to \<^verbatim>\<open>connect\<close>: the handshake gives a socket and the
  \<^verbatim>\<open>on_connect\<close> hook returns; the handshake gives a socket and the hook raises; the
  handshake raises \<^verbatim>\<open>aiohttp.ClientError\<close>; it raises another exception.
\<close>

datatype handshake = Established | OnConnectRaises | RaisesClientError | RaisesException

text \<open>
  \<^verbatim>\<open>WebSocketClient.connect\<close> in its two parts: up to
  \<^verbatim>\<open>await self._session.ws_connect(...)\<close>, where the coroutine is suspended, and from the
  answer on. The first part returns whether the guard let the call through. On a closed
  session aiohttp raises RuntimeError ("Session is closed") whatever the peer does.
\<close>

definition connect_begin :: "'g WebSocketClient \<Rightarrow> bool \<times> 'g WebSocketClient" where
  "connect_begin c =
     (if state c \<in> {CONNECTING, CONNECTED}
      then (False, emit (Log WARNING ''already connecting or connected'') c)
      else
        (let c1 = emit (Log INFO ''connecting'') (c\<lparr>state := CONNECTING\<rparr>);
             c2 = (if session c1 = None then c1\<lparr>session := Some False\<rparr> else c1)
         in (True, emit WsConnect c2)))"

definition connect_finish :: "handshake \<Rightarrow> 'g WebSocketClient \<Rightarrow> bool \<times> 'g WebSocketClient" where
  "connect_finish answer c =
     (let answer' = (if session c = Some True then RaisesException else answer);
          up = emit OnConnect (emit (Log INFO ''connected'') (emit WsConnected
                 (c\<lparr>ws := Some False, state := CONNECTED, reconnect_count := 0\<rparr>)))
      in case answer' of
           Established \<Rightarrow> (True, emit SpawnReceiveLoop up)
         | OnConnectRaises \<Rightarrow>
             (False, emit (Log ERROR ''connect exception'') (up\<lparr>state := DISCONNECTED\<rparr>))
         | RaisesClientError \<Rightarrow>
             (False, emit (Log ERROR ''connect failed'') (c\<lparr>state := DISCONNECTED\<rparr>))
         | RaisesException \<Rightarrow>
             (False, emit (Log ERROR ''connect exception'') (c\<lparr>state := DISCONNECTED\<rparr>)))"

definition connect :: "handshake \<Rightarrow> 'g WebSocketClient \<Rightarrow> bool \<times> 'g WebSocketClient" where
  "connect answer c =
     (case connect_begin c of
        (False, c') \<Rightarrow> (False, c')
      | (True, c') \<Rightarrow> connect_finish answer c')"

text \<open>
  \<^verbatim>\<open>if self._check_task_id:\<close> is the Python truth value of an optional string.
\<close>

fun truthy_id :: "string option \<Rightarrow> bool" where
  "truthy_id None = False"
| "truthy_id (Some s) = (s \<noteq> [])"

text \<open>
  \<^verbatim>\<open>WebSocketClient.disconnect\<close>; the scheduler is the module-level
  \<^verbatim>\<open>heartbeat\<close> instance, passed and returned. The two identifiers are those that
  \<^verbatim>\<open>WebSocketClient.start\<close> got for the bound methods \<^verbatim>\<open>_check_connection\<close> and
  \<^verbatim>\<open>_send_heartbeat\<close>, which have a \<^verbatim>\<open>__name__\<close>, so \<^verbatim>\<open>unregister\<close> returns.
\<close>

definition disconnect ::
  "'g WebSocketClient \<Rightarrow> ('f, 'a) HeartBeat \<Rightarrow> 'g WebSocketClient \<times> ('f, 'a) HeartBeat" where
  "disconnect c hb =
     (let c1 = (emit (Log INFO ''disconnecting'') c)\<lparr>state := CLOSED\<rparr>;
          hb1 = (if truthy_id (check_task_id c1)
                 then snd (snd (unregister (\<lambda>f. True) (the (check_task_id c1)) hb)) else hb);
          c2 = (if truthy_id (check_task_id c1) then c1\<lparr>check_task_id := None\<rparr> else c1);
          hb2 = (if truthy_id (heartbeat_task_id c2)
                 then snd (snd (unregister (\<lambda>f. True) (the (heartbeat_task_id c2)) hb1)) else hb1);
          c3 = (if truthy_id (heartbeat_task_id c2) then c2\<lparr>heartbeat_task_id := None\<rparr> else c2);
          c4 = (if ws c3 = Some False then emit WsClose (c3\<lparr>ws := Some True\<rparr>) else c3);
          c5 = (if session c4 = Some False
                then emit SessionClose (c4\<lparr>session := Some True\<rparr>) else c4)
      in (emit (Log INFO ''disconnected'') c5, hb2))"

text \<open>
  A coroutine that stops at \<^verbatim>\<open>await asyncio.sleep(wait_time)\<close> hands control back
  to the event loop: \<open>Sleeping d\<close>. \<open>Finished\<close> is a return.
\<close>

datatype suspension = Finished | Sleeping int

text \<open>
  \<^verbatim>\<open>WebSocketClient._reconnect\<close>: the part before the sleep, and the part after it,
  which is \<^verbatim>\<open>await self.connect()\<close> and nothing else.
\<close>

definition reconnect_begin :: "'g WebSocketClient \<Rightarrow> suspension \<times> 'g WebSocketClient" where
  "reconnect_begin c =
     (if state c = RECONNECTING then (Finished, c)
      else if max_reconnect_attempts c > 0 \<and> reconnect_count c \<ge> max_reconnect_attempts c
      then (Finished, emit (Log ERROR ''max reconnect attempts reached'') c)
      else
        (let c1 = c\<lparr>state := RECONNECTING, reconnect_count := reconnect_count c + 1\<rparr>;
             wait_time = min (reconnect_count c1 * 2) 30
         in (Sleeping wait_time,
             emit (Sleep wait_time) (emit (Log INFO ''reconnect scheduled'') c1))))"

definition reconnect_resume :: "handshake \<Rightarrow> 'g WebSocketClient \<Rightarrow> 'g WebSocketClient" where
  "reconnect_resume answer c = snd (connect answer c)"

text \<open>
  \<^verbatim>\<open>WebSocketClient._handle_disconnect\<close> up to the sleep of \<^verbatim>\<open>_reconnect\<close>. The
  \<^verbatim>\<open>on_disconnect\<close> hook of the base class and of the adapters only logs.
\<close>

definition handle_disconnect_begin :: "'g WebSocketClient \<Rightarrow> suspension \<times> 'g WebSocketClient" where
  "handle_disconnect_begin c =
     (if state c = CLOSED then (Finished, c)
      else
        (let c1 = emit OnDisconnect (c\<lparr>state := DISCONNECTED\<rparr>)
         in if auto_reconnect c1 then reconnect_begin c1 else (Finished, c1)))"

text \<open>
  \<^verbatim>\<open>_handle_disconnect\<close> run to its end with nothing else scheduled in between: the
  sleep elapses and \<^verbatim>\<open>connect\<close> gets the answer \<open>answer\<close>.
\<close>

definition handle_disconnect :: "handshake \<Rightarrow> 'g WebSocketClient \<Rightarrow> 'g WebSocketClient" where
  "handle_disconnect answer c =
     (case handle_disconnect_begin c of
        (Finished, c') \<Rightarrow> c'
      | (Sleeping d, c') \<Rightarrow> reconnect_resume answer c')"

text \<open>\<^verbatim>\<open>WebSocketClient._check_connection\<close>, up to the sleep.\<close>

definition check_connection :: "'g WebSocketClient \<Rightarrow> suspension \<times> 'g WebSocketClient" where
  "check_connection c =
     (case ws c of
        None \<Rightarrow> (Finished, emit (Log DEBUG ''socket not initialised'') c)
      | Some closed \<Rightarrow>
          if closed \<and> state c = CONNECTED
          then handle_disconnect_begin (emit (Log WARNING ''socket found closed'') c)
          else (Finished, c))"

text \<open>
  What the socket answers to a send: it returns, or it raises an exception (a subclass
  of \<^verbatim>\<open>Exception\<close>, which is what the handlers catch).
\<close>

datatype transport = SendOk | SendRaises py_exception

definition ws_send_json ::
  "transport \<Rightarrow> (string \<times> json) list \<Rightarrow> 'g WebSocketClient \<Rightarrow> unit outcome \<times> 'g WebSocketClient" where
  "ws_send_json t d c =
     (case t of SendOk \<Rightarrow> (Return (), emit (WsSendJson d) c)
              | SendRaises e \<Rightarrow> (Raise e, emit (WsSendJson d) c))"

definition ws_send_str ::
  "transport \<Rightarrow> string \<Rightarrow> 'g WebSocketClient \<Rightarrow> unit outcome \<times> 'g WebSocketClient" where
  "ws_send_str t s c =
     (case t of SendOk \<Rightarrow> (Return (), emit (WsSendStr s) c)
              | SendRaises e \<Rightarrow> (Raise e, emit (WsSendStr s) c))"

text \<open>\<^verbatim>\<open>WebSocketClient.send_json\<close> and \<^verbatim>\<open>WebSocketClient.send_text\<close>.\<close>

definition send_json ::
  "transport \<Rightarrow> (string \<times> json) list \<Rightarrow> 'g WebSocketClient \<Rightarrow> bool outcome \<times> 'g WebSocketClient" where
  "send_json t d c =
     (if \<not> is_connected c then (Return False, emit (Log WARNING ''not connected'') c)
      else
        (case ws_send_json t d c of
           (Return u, c') \<Rightarrow> (Return True, emit (Log DEBUG ''json sent'') c')
         | (Raise e, c') \<Rightarrow> (Return False, emit (Log ERROR ''json send failed'') c')))"

definition send_text ::
  "transport \<Rightarrow> string \<Rightarrow> 'g WebSocketClient \<Rightarrow> bool outcome \<times> 'g WebSocketClient" where
  "send_text t s c =
     (if \<not> is_connected c then (Return False, emit (Log WARNING ''not connected'') c)
      else
        (case ws_send_str t s c of
           (Return u, c') \<Rightarrow> (Return True, emit (Log DEBUG ''text sent'') c')
         | (Raise e, c') \<Rightarrow> (Return False, emit (Log ERROR ''text send failed'') c')))"

text \<open>\<^verbatim>\<open>WebSocketClient._send_heartbeat\<close>.\<close>

definition send_heartbeat ::
  "transport \<Rightarrow> 'g WebSocketClient \<Rightarrow> unit outcome \<times> 'g WebSocketClient" where
  "send_heartbeat t c =
     (if \<not> is_connected c then (Return (), c)
      else if \<not> truthy (heartbeat_msg c) then (Return (), c)
      else
        (case heartbeat_msg c of
           PDict d \<Rightarrow>
             (case ws_send_json t d c of
                (Return u, c') \<Rightarrow> (Return (), emit (Log DEBUG ''heartbeat sent (JSON)'') c')
              | (Raise e, c') \<Rightarrow> (Return (), emit (Log ERROR ''heartbeat send failed'') c'))
         | PStr s \<Rightarrow>
             (case ws_send_str t s c of
                (Return u, c') \<Rightarrow> (Return (), emit (Log DEBUG ''heartbeat sent (Text)'') c')
              | (Raise e, c') \<Rightarrow> (Return (), emit (Log ERROR ''heartbeat send failed'') c'))
         | _ \<Rightarrow> (Return (), emit (Log WARNING ''unsupported heartbeat message type'') c)))"

text \<open>The frames handed to the socket, read off a trace.\<close>

fun sent_frames :: "ws_event list \<Rightarrow> ws_event list" where
  "sent_frames [] = []"
| "sent_frames (WsSendJson d # es) = WsSendJson d # sent_frames es"
| "sent_frames (WsSendStr s # es) = WsSendStr s # sent_frames es"
| "sent_frames (e # es) = sent_frames es"


text \<open>
  Since the last return of \<^verbatim>\<open>ws_connect\<close> with a socket, how many times the backoff
  sleep of \<^verbatim>\<open>_reconnect\<close> was entered: the number of reconnect attempts since the last
  successful connect, read off the trace.
\<close>

fun attempt_step :: "nat \<Rightarrow> ws_event \<Rightarrow> nat" where
  "attempt_step n WsConnected = 0"
| "attempt_step n (Sleep d) = Suc n"
| "attempt_step n e = n"

definition attempts_since_connected :: "ws_event list \<Rightarrow> nat" where
  "attempts_since_connected tr = foldl attempt_step 0 tr"

text \<open>
  The event loop runs one piece of a coroutine at a time, from one \<^verbatim>\<open>await\<close> to the
  next. A step is one such piece on a connection, or the peer closing the socket; a run
  is any sequence of steps, on the connection and the scheduler it is registered with.
\<close>

datatype step =
    DoConnectBegin
  | DoConnectFinish handshake
  | DoDisconnect
  | DoHandleDisconnect
  | DoCheckConnection
  | DoSendHeartbeat transport
  | DoSendJson transport "(string \<times> json) list"
  | DoSendText transport string
  | PeerCloses

fun exec ::
  "step \<Rightarrow> 'g WebSocketClient \<times> ('f, 'a) HeartBeat \<Rightarrow> 'g WebSocketClient \<times> ('f, 'a) HeartBeat" where
  "exec DoConnectBegin (c, hb) = (snd (connect_begin c), hb)"
| "exec (DoConnectFinish answer) (c, hb) = (snd (connect_finish answer c), hb)"
| "exec DoDisconnect (c, hb) = disconnect c hb"
| "exec DoHandleDisconnect (c, hb) = (snd (handle_disconnect_begin c), hb)"
| "exec DoCheckConnection (c, hb) = (snd (check_connection c), hb)"
| "exec (DoSendHeartbeat t) (c, hb) = (snd (send_heartbeat t c), hb)"
| "exec (DoSendJson t d) (c, hb) = (snd (send_json t d c), hb)"
| "exec (DoSendText t s) (c, hb) = (snd (send_text t s c), hb)"
| "exec PeerCloses (c, hb) = (c\<lparr>ws := map_option (\<lambda>closed. True) (ws c)\<rparr>, hb)"

fun run ::
  "step list \<Rightarrow> 'g WebSocketClient \<times> ('f, 'a) HeartBeat \<Rightarrow> 'g WebSocketClient \<times> ('f, 'a) HeartBeat" where
  "run [] w = w"
| "run (s # ss) w = run ss (exec s w)"

text \<open>
  Inputs of the examples: a connection made by \<^verbatim>\<open>__init__\<close> with automatic reconnect
  and the given maximum of attempts, after one \<^verbatim>\<open>connect\<close> that succeeded; and the
  same with a heartbeat payload stored.
\<close>

definition connected_client :: "int \<Rightarrow> string WebSocketClient" where
  "connected_client max_attempts =
     snd (connect Established (WebSocketClient_init 10 10 True max_attempts))"

definition client_with_payload :: "string heartbeat_payload \<Rightarrow> string WebSocketClient" where
  "client_with_payload p = (connected_client 0)\<lparr>heartbeat_msg := p\<rparr>"

text \<open>
  Inputs of the examples on runs: a connect that succeeds, the peer closing the socket
  and the liveness check finding it closed, which leaves \<^verbatim>\<open>_reconnect\<close> asleep; a
  connect that succeeds, the disconnect handled 15 times over, and a connect that fails;
  the connection on which
  \<^verbatim>\<open>disconnect\<close> is called while \<^verbatim>\<open>_reconnect\<close> sleeps; the connection with at most
  two attempts after \<^verbatim>\<open>_handle_disconnect\<close> ran to its end with the handshake refused.
\<close>

definition overlapping_disconnect_steps :: "step list" where
  "overlapping_disconnect_steps =
     [DoConnectBegin, DoConnectFinish Established, PeerCloses, DoCheckConnection]"

definition capped_backoff_steps :: "step list" where
  "capped_backoff_steps =
     [DoConnectBegin, DoConnectFinish Established] @ replicate 15 DoHandleDisconnect @
     [DoConnectBegin, DoConnectFinish RaisesClientError]"

definition closed_during_backoff :: "string WebSocketClient" where
  "closed_during_backoff =
     fst (disconnect (snd (handle_disconnect_begin (connected_client 0)))
            (HeartBeat_init 0 0 :: (string, nat) HeartBeat))"

definition after_failed_reconnect :: "string WebSocketClient" where
  "after_failed_reconnect = handle_disconnect RaisesClientError (connected_client 2)"

section \<open>The subscription registry: \<^verbatim>\<open>BinanceSpotWebSocketBase.process\<close>\<close>









section \<open>Properties of the scheduler\<close>

lemma update_fresh: "k \<notin> fst ` set al \<Longrightarrow> AList.update k v al = al @ [(k, v)]"
  by (induction al) auto









lemma register_error:
  "i \<le> 0 \<Longrightarrow> register uuid1 named f i as kws (h, g) = (Raise ValueError, [], h, g)"
  by (simp add: register_def)

lemma register_ok:
  "0 < i \<Longrightarrow> named f \<Longrightarrow> gen g \<notin> fst ` set (tasks h) \<Longrightarrow>
   register gen named f i as kws (h, g) =
     (Return (gen g), [HbLog INFO],
      h\<lparr>tasks := tasks h @ [(gen g, \<lparr>func = f, interval = i, args = as, kwargs = kws\<rparr>)]\<rparr>,
      Suc g)"
  by (simp add: register_def get_uuid1_def update_fresh)

lemma register_without_name:
  "0 < i \<Longrightarrow> \<not> named f \<Longrightarrow>
   register gen named f i as kws (h, g) =
     (Raise AttributeError, [],
      h\<lparr>tasks := AList.update (gen g)
            \<lparr>func = f, interval = i, args = as, kwargs = kws\<rparr> (tasks h)\<rparr>,
      Suc g)"
  by (simp add: register_def get_uuid1_def)

text \<open>
  \<open>tasks_ok\<close> holds of the empty table of \<^verbatim>\<open>__init__\<close> and is kept by
  \<open>register\<close> and \<open>unregister\<close>, the only writers of the table besides
  \<^verbatim>\<open>clear_tasks\<close>.
\<close>

lemma tasks_ok_init: "tasks_ok (tasks (HeartBeat_init p b))"
  by (simp add: HeartBeat_init_def tasks_ok_def)

lemma list_all_update:
  "list_all P al \<Longrightarrow> P (k, v) \<Longrightarrow> list_all P (AList.update k v al)"
  by (induction al) auto

lemma list_all_delete: "list_all P al \<Longrightarrow> list_all P (AList.delete k al)"
  by (induction al) auto

lemma tasks_ok_register:
  assumes "tasks_ok (tasks h)"
      and "register uuid1 named f i as kws (h, issued) = (r, evs, h', issued')"
  shows "tasks_ok (tasks h')"
proof (cases "i \<le> 0")
  case True
  with assms show ?thesis by (simp add: register_def)
next
  case False
  with assms(2) have "tasks h' = AList.update (uuid1 issued)
                        \<lparr>func = f, interval = i, args = as, kwargs = kws\<rparr> (tasks h)"
    by (auto simp: register_def get_uuid1_def Let_def split: if_splits)
  with assms(1) False show ?thesis
    by (simp add: tasks_ok_def distinct_update list_all_update)
qed

lemma tasks_ok_unregister:
  "tasks_ok (tasks h) \<Longrightarrow> tasks_ok (tasks (snd (snd (unregister named task_id h))))"
  by (simp add: unregister_def tasks_ok_def distinct_delete list_all_delete Let_def
           split: option.splits)



text \<open>
  Claim C5 says that \<open>register\<close> raises a configuration error for every interval
  \<open>\<le> 0\<close>, leaving the table as it was and drawing no identifier, and that for every
  interval \<open>\<ge> 1\<close> and every callback it stores exactly one new task and returns its
  identifier. The code at three inputs on a fresh scheduler: with interval 0 it raises
  ValueError and nothing changes; with interval 3 and a named function it stores the
  task and returns the identifier; with interval 3 and a \<^verbatim>\<open>functools.partial\<close>
  object it draws the identifier and stores the task, and then the log line raises
  AttributeError, so the identifier is never returned.
\<close>

theorem C5_register_stores_then_raises_without_name:
  "register scenario_uuid1 has_name None 0 [] []
     (HeartBeat_init 0 0 :: (string option, nat) HeartBeat, 0) =
     (Raise ValueError, [], HeartBeat_init 0 0, 0) \<and>
   register scenario_uuid1 has_name (Some ''A'') 3 [] []
     (HeartBeat_init 0 0 :: (string option, nat) HeartBeat, 0) =
     (Return ''task-A'', [HbLog INFO],
      (HeartBeat_init 0 0)\<lparr>tasks :=
         [(''task-A'', \<lparr>func = Some ''A'', interval = 3, args = [], kwargs = []\<rparr>)]\<rparr>,
      Suc 0) \<and>
   register scenario_uuid1 has_name None 3 [] []
     (HeartBeat_init 0 0 :: (string option, nat) HeartBeat, 0) =
     (Raise AttributeError, [],
      (HeartBeat_init 0 0)\<lparr>tasks :=
         [(''task-A'', \<lparr>func = None, interval = 3, args = [], kwargs = []\<rparr>)]\<rparr>,
      Suc 0)"
proof -
  let ?h = "HeartBeat_init 0 0 :: (string option, nat) HeartBeat"
  have empty: "tasks ?h = []" by (simp add: HeartBeat_init_def)
  have id0: "scenario_uuid1 0 = ''task-A''" by (simp add: scenario_uuid1_def)
  have refused: "register scenario_uuid1 has_name None 0 [] [] (?h, 0) =
                   (Raise ValueError, [], ?h, 0)"
    by (rule register_error) simp
  have stored: "register scenario_uuid1 has_name (Some ''A'') 3 [] [] (?h, 0) =
                  (Return ''task-A'', [HbLog INFO],
                   ?h\<lparr>tasks := [(''task-A'',
                        \<lparr>func = Some ''A'', interval = 3, args = [], kwargs = []\<rparr>)]\<rparr>,
                   Suc 0)"
    using register_ok[where i = 3 and named = has_name and f = "Some ''A''" and
            gen = scenario_uuid1 and g = 0 and h = ?h and as = "[]" and kws = "[]"] empty id0
    by (simp add: has_name_def)
  have lost: "register scenario_uuid1 has_name None 3 [] [] (?h, 0) =
                (Raise AttributeError, [],
                 ?h\<lparr>tasks := [(''task-A'',
                      \<lparr>func = None, interval = 3, args = [], kwargs = []\<rparr>)]\<rparr>,
                 Suc 0)"
    using register_without_name[where i = 3 and named = has_name and f = None and
            gen = scenario_uuid1 and g = 0 and h = ?h and as = "[]" and kws = "[]"] empty id0
    by (simp add: has_name_def)
  from refused stored lost show ?thesis by blast
qed







section \<open>Properties of the connection\<close>

lemma attempts_snoc:
  "attempts_since_connected (tr @ es) = foldl attempt_step (attempts_since_connected tr) es"
  by (simp add: attempts_since_connected_def)

lemma counted_connect_begin:
  "reconnect_count c = int (attempts_since_connected (trace c)) \<Longrightarrow>
   reconnect_count (snd (connect_begin c)) =
     int (attempts_since_connected (trace (snd (connect_begin c))))"
  by (simp add: connect_begin_def emit_def Let_def attempts_snoc)

lemma counted_connect_finish:
  "reconnect_count c = int (attempts_since_connected (trace c)) \<Longrightarrow>
   reconnect_count (snd (connect_finish answer c)) =
     int (attempts_since_connected (trace (snd (connect_finish answer c))))"
  by (cases answer) (simp_all add: connect_finish_def emit_def Let_def attempts_snoc)

lemma counted_disconnect:
  "reconnect_count c = int (attempts_since_connected (trace c)) \<Longrightarrow>
   reconnect_count (fst (disconnect c hb)) =
     int (attempts_since_connected (trace (fst (disconnect c hb))))"
  by (simp add: disconnect_def emit_def Let_def attempts_snoc)

lemma counted_reconnect_begin:
  "reconnect_count c = int (attempts_since_connected (trace c)) \<Longrightarrow>
   reconnect_count (snd (reconnect_begin c)) =
     int (attempts_since_connected (trace (snd (reconnect_begin c))))"
  by (simp add: reconnect_begin_def emit_def Let_def attempts_snoc)

lemma counted_handle_disconnect_begin:
  assumes "reconnect_count c = int (attempts_since_connected (trace c))"
  shows "reconnect_count (snd (handle_disconnect_begin c)) =
           int (attempts_since_connected (trace (snd (handle_disconnect_begin c))))"
proof -
  let ?c1 = "emit OnDisconnect (c\<lparr>state := DISCONNECTED\<rparr>)"
  have "reconnect_count ?c1 = int (attempts_since_connected (trace ?c1))"
    using assms by (simp add: emit_def attempts_snoc)
  from counted_reconnect_begin[OF this] this assms show ?thesis
    by (simp add: handle_disconnect_begin_def Let_def)
qed

lemma counted_check_connection:
  assumes "reconnect_count c = int (attempts_since_connected (trace c))"
  shows "reconnect_count (snd (check_connection c)) =
           int (attempts_since_connected (trace (snd (check_connection c))))"
proof -
  let ?c1 = "emit (Log WARNING ''socket found closed'') c"
  have "reconnect_count ?c1 = int (attempts_since_connected (trace ?c1))"
    using assms by (simp add: emit_def attempts_snoc)
  from counted_handle_disconnect_begin[OF this] assms show ?thesis
    by (simp add: check_connection_def emit_def attempts_snoc split: option.splits)
qed

lemma counted_send_json:
  "reconnect_count c = int (attempts_since_connected (trace c)) \<Longrightarrow>
   reconnect_count (snd (send_json t d c)) =
     int (attempts_since_connected (trace (snd (send_json t d c))))"
  by (cases t) (simp_all add: send_json_def ws_send_json_def emit_def attempts_snoc)

lemma counted_send_text:
  "reconnect_count c = int (attempts_since_connected (trace c)) \<Longrightarrow>
   reconnect_count (snd (send_text t s c)) =
     int (attempts_since_connected (trace (snd (send_text t s c))))"
  by (cases t) (simp_all add: send_text_def ws_send_str_def emit_def attempts_snoc)

lemma counted_send_heartbeat:
  "reconnect_count c = int (attempts_since_connected (trace c)) \<Longrightarrow>
   reconnect_count (snd (send_heartbeat t c)) =
     int (attempts_since_connected (trace (snd (send_heartbeat t c))))"
  by (cases t; cases "heartbeat_msg c")
     (simp_all add: send_heartbeat_def ws_send_json_def ws_send_str_def emit_def attempts_snoc)

lemma counted_exec:
  "reconnect_count (fst w) = int (attempts_since_connected (trace (fst w))) \<Longrightarrow>
   reconnect_count (fst (exec s w)) = int (attempts_since_connected (trace (fst (exec s w))))"
  by (cases w; cases s)
     (simp_all add: counted_connect_begin counted_connect_finish counted_disconnect
        counted_handle_disconnect_begin counted_check_connection counted_send_json
        counted_send_text counted_send_heartbeat)

lemma counted_run:
  "reconnect_count (fst w) = int (attempts_since_connected (trace (fst w))) \<Longrightarrow>
   reconnect_count (fst (run steps w)) = int (attempts_since_connected (trace (fst (run steps w))))"
  by (induction steps arbitrary: w) (simp_all add: counted_exec)

lemma counted_init:
  "reconnect_count (WebSocketClient_init civ hiv auto m) =
     int (attempts_since_connected (trace (WebSocketClient_init civ hiv auto m)))"
  by (simp add: WebSocketClient_init_def attempts_since_connected_def)

lemma connected_client_eq:
  "connected_client m =
     \<lparr>check_conn_interval = 10, send_hb_interval = 10, auto_reconnect = True,
      max_reconnect_attempts = m, session = Some False, ws = Some False,
      state = CONNECTED, reconnect_count = 0, heartbeat_msg = PNone,
      check_task_id = None, heartbeat_task_id = None,
      trace = [Log INFO ''connecting'', WsConnect, WsConnected, Log INFO ''connected'',
               OnConnect, SpawnReceiveLoop]\<rparr>"
  by (simp add: connected_client_def WebSocketClient_init_def connect_def connect_begin_def
        connect_finish_def emit_def Let_def)

text \<open>
  Claim C2. In every run of a connection made by \<^verbatim>\<open>__init__\<close>, when
  \<^verbatim>\<open>_reconnect\<close> (called by itself or through \<^verbatim>\<open>_handle_disconnect\<close>) goes to
  sleep, this is attempt number \<open>N\<close> since the last
  successful handshake for some \<open>N \<ge> 1\<close>, the counter equals \<open>N\<close> (it was
  incremented before the delay was computed), and the delay is \<open>min (N * 2) 30\<close>. A
  \<^verbatim>\<open>connect\<close> that returns true leaves the counter at 0.
\<close>

theorem C2_backoff_is_twice_attempt_capped_at_30:
  assumes "run steps (WebSocketClient_init civ hiv auto max_attempts, hb) = (c, hb')"
      and "reconnect_begin c = (Sleeping d, c') \<or> handle_disconnect_begin c = (Sleeping d, c')"
  shows "attempts_since_connected (trace c') = Suc (attempts_since_connected (trace c)) \<and>
         reconnect_count c' = int (attempts_since_connected (trace c')) \<and>
         d = min (int (attempts_since_connected (trace c')) * 2) 30 \<and>
         (connect answer c' = (True, c'') \<longrightarrow>
            reconnect_count c'' = 0 \<and> attempts_since_connected (trace c'') = 0)"
proof -
  have "reconnect_count (fst (c, hb')) = int (attempts_since_connected (trace (fst (c, hb'))))"
    unfolding assms(1)[symmetric] by (rule counted_run) (simp add: counted_init)
  then have inv: "reconnect_count c = int (attempts_since_connected (trace c))" by simp
  let ?c1 = "emit OnDisconnect (c\<lparr>state := DISCONNECTED\<rparr>)"
  have inv1: "reconnect_count ?c1 = int (attempts_since_connected (trace ?c1))"
    and same: "attempts_since_connected (trace ?c1) = attempts_since_connected (trace c)"
    using inv by (simp_all add: emit_def attempts_snoc)
  from assms(2) have "reconnect_begin c = (Sleeping d, c') \<or> reconnect_begin ?c1 = (Sleeping d, c')"
    by (auto simp: handle_disconnect_begin_def Let_def split: if_splits)
  then obtain c0 where inv0: "reconnect_count c0 = int (attempts_since_connected (trace c0))"
    and same0: "attempts_since_connected (trace c0) = attempts_since_connected (trace c)"
    and rb: "reconnect_begin c0 = (Sleeping d, c')"
    using inv inv1 same by blast
  from rb have c': "c' = emit (Sleep d) (emit (Log INFO ''reconnect scheduled'')
                     (c0\<lparr>state := RECONNECTING, reconnect_count := reconnect_count c0 + 1\<rparr>))"
    and d: "d = min ((reconnect_count c0 + 1) * 2) 30"
    by (auto simp: reconnect_begin_def Let_def split: if_splits)
  have A: "attempts_since_connected (trace c') = Suc (attempts_since_connected (trace c))"
    using c' same0 by (simp add: emit_def attempts_snoc)
  have B: "reconnect_count c' = int (attempts_since_connected (trace c'))"
    using c' inv0 same0 A by (simp add: emit_def)
  have C: "d = min (int (attempts_since_connected (trace c')) * 2) 30"
    using d inv0 same0 A by simp
  have D: "reconnect_count c'' = 0 \<and> attempts_since_connected (trace c'') = 0"
    if "connect answer c' = (True, c'')"
    using that
    by (auto simp: connect_def connect_begin_def connect_finish_def emit_def Let_def attempts_snoc
             split: if_splits handshake.splits)
  from A B C D show ?thesis by blast
qed

theorem C2_backoff_witness:
  "fst (run overlapping_disconnect_steps
          (WebSocketClient_init 10 10 True 0 :: string WebSocketClient,
           HeartBeat_init 0 0 :: (string, nat) HeartBeat)) =
     (connected_client 0)\<lparr>ws := Some True, state := RECONNECTING, reconnect_count := 1,
        trace := trace (connected_client 0) @
                 [Log WARNING ''socket found closed'', OnDisconnect,
                  Log INFO ''reconnect scheduled'', Sleep 2]\<rparr> \<and>
   fst (handle_disconnect_begin (fst (run overlapping_disconnect_steps
          (WebSocketClient_init 10 10 True 0 :: string WebSocketClient,
           HeartBeat_init 0 0 :: (string, nat) HeartBeat)))) = Sleeping 4 \<and>
   attempts_since_connected (trace (snd (handle_disconnect_begin (fst (run overlapping_disconnect_steps
          (WebSocketClient_init 10 10 True 0 :: string WebSocketClient,
           HeartBeat_init 0 0 :: (string, nat) HeartBeat)))))) = 2 \<and>
   fst (reconnect_begin (fst (run capped_backoff_steps
          (WebSocketClient_init 10 10 True 0 :: string WebSocketClient,
           HeartBeat_init 0 0 :: (string, nat) HeartBeat)))) = Sleeping 30 \<and>
   attempts_since_connected (trace (snd (reconnect_begin (fst (run capped_backoff_steps
          (WebSocketClient_init 10 10 True 0 :: string WebSocketClient,
           HeartBeat_init 0 0 :: (string, nat) HeartBeat)))))) = 16"
proof -
  let ?w = "(WebSocketClient_init 10 10 True 0 :: string WebSocketClient,
             HeartBeat_init 0 0 :: (string, nat) HeartBeat)"
  let ?c = "fst (run overlapping_disconnect_steps ?w)"
  let ?k = "fst (run capped_backoff_steps ?w)"
  have r: "run overlapping_disconnect_steps ?w = (?c, snd (run overlapping_disconnect_steps ?w))"
    by simp
  have ceq: "?c = (connected_client 0)\<lparr>ws := Some True, state := RECONNECTING,
        reconnect_count := 1,
        trace := trace (connected_client 0) @
                 [Log WARNING ''socket found closed'', OnDisconnect,
                  Log INFO ''reconnect scheduled'', Sleep 2]\<rparr>"
    by (simp add: overlapping_disconnect_steps_def connected_client_eq WebSocketClient_init_def
          connect_begin_def connect_finish_def check_connection_def handle_disconnect_begin_def
          reconnect_begin_def emit_def Let_def)
  have tr: "attempts_since_connected (trace ?c) = 1"
    unfolding ceq by (simp add: connected_client_eq attempts_since_connected_def)
  obtain d c' where rb: "handle_disconnect_begin ?c = (d, c')"
    by (cases "handle_disconnect_begin ?c")
  have "\<exists>n. d = Sleeping n"
    using rb unfolding ceq
    by (auto simp: connected_client_eq handle_disconnect_begin_def reconnect_begin_def emit_def
          Let_def split: if_splits)
  then obtain n where d: "d = Sleeping n" by blast
  from C2_backoff_is_twice_attempt_capped_at_30[OF r disjI2, OF rb[unfolded d]] tr
  have two: "attempts_since_connected (trace c') = 2" "n = 4" by simp_all
  have rk: "run capped_backoff_steps ?w = (?k, snd (run capped_backoff_steps ?w))" by simp
  have stk: "state ?k = DISCONNECTED" and mxk: "max_reconnect_attempts ?k = 0"
    and trk: "attempts_since_connected (trace ?k) = 15"
    by (simp_all add: capped_backoff_steps_def WebSocketClient_init_def connect_begin_def
          connect_finish_def handle_disconnect_begin_def reconnect_begin_def emit_def Let_def
          attempts_since_connected_def eval_nat_numeral)
  obtain e k' where rbk: "reconnect_begin ?k = (e, k')" by (cases "reconnect_begin ?k")
  with stk mxk have "\<exists>m. e = Sleeping m"
    by (auto simp: reconnect_begin_def Let_def split: if_splits)
  then obtain m where e: "e = Sleeping m" by blast
  from C2_backoff_is_twice_attempt_capped_at_30[OF rk disjI1, OF rbk[unfolded e]] trk
  have cap: "attempts_since_connected (trace k') = 16" "m = 30" by simp_all
  from ceq rb d two rbk e cap show ?thesis by simp
qed

text \<open>
  Claim C4. On a connection in state Connected or Connecting, \<^verbatim>\<open>connect\<close> returns
  false, logs a warning and changes nothing else: the state is the same and the
  \<^verbatim>\<open>on_connect\<close> hook is not invoked again.
\<close>

theorem C4_connect_again_returns_false:
  assumes "state c = CONNECTED \<or> state c = CONNECTING"
  shows "connect answer c = (False, emit (Log WARNING ''already connecting or connected'') c) \<and>
         state (snd (connect answer c)) = state c \<and>
         count_list (trace (snd (connect answer c))) OnConnect = count_list (trace c) OnConnect"
  using assms by (auto simp: connect_def connect_begin_def emit_def)

theorem C4_connect_again_witness:
  "state (connected_client 0) = CONNECTED \<and>
   fst (connect Established (connected_client 0)) = False \<and>
   state (snd (connect Established (connected_client 0))) = CONNECTED \<and>
   count_list (trace (connected_client 0)) OnConnect = 1 \<and>
   count_list (trace (snd (connect Established (connected_client 0)))) OnConnect = 1"
proof -
  have s: "state (connected_client 0) = CONNECTED"
    by (simp add: connected_client_def WebSocketClient_init_def connect_def connect_begin_def
          connect_finish_def emit_def Let_def)
  have n: "count_list (trace (connected_client 0)) OnConnect = 1"
    by (simp add: connected_client_def WebSocketClient_init_def connect_def connect_begin_def
          connect_finish_def emit_def Let_def)
  from C4_connect_again_returns_false[of "connected_client 0" Established] s n
  show ?thesis by (simp add: emit_def)
qed

lemma sent_frames_append: "sent_frames (xs @ ys) = sent_frames xs @ sent_frames ys"
  by (induction xs rule: sent_frames.induct) simp_all

text \<open>
  Claim C7. \<^verbatim>\<open>send_json\<close> and \<^verbatim>\<open>send_text\<close> always return a boolean, never an
  exception. Not connected: false, with a warning and nothing handed to the socket.
  Connected and the socket's send raises: the exception is caught, an error is logged,
  false. Connected and the send returns: true. (Cancellation of the task, which is not
  an \<^verbatim>\<open>Exception\<close>, is outside the model.)
\<close>

theorem C7_send_returns_false_and_never_raises:
  "(\<exists>b. fst (send_json t d c) = Return b) \<and> (\<exists>b. fst (send_text t s c) = Return b) \<and>
   (\<not> is_connected c \<longrightarrow>
      send_json t d c = (Return False, emit (Log WARNING ''not connected'') c) \<and>
      send_text t s c = (Return False, emit (Log WARNING ''not connected'') c) \<and>
      sent_frames (trace (snd (send_json t d c))) = sent_frames (trace c) \<and>
      sent_frames (trace (snd (send_text t s c))) = sent_frames (trace c)) \<and>
   (is_connected c \<longrightarrow>
      send_json (SendRaises e) d c =
        (Return False, emit (Log ERROR ''json send failed'') (emit (WsSendJson d) c)) \<and>
      send_text (SendRaises e) s c =
        (Return False, emit (Log ERROR ''text send failed'') (emit (WsSendStr s) c)) \<and>
      send_json SendOk d c =
        (Return True, emit (Log DEBUG ''json sent'') (emit (WsSendJson d) c)) \<and>
      send_text SendOk s c =
        (Return True, emit (Log DEBUG ''text sent'') (emit (WsSendStr s) c)))"
  by (cases t)
     (auto simp: send_json_def send_text_def ws_send_json_def ws_send_str_def emit_def
        sent_frames_append)

theorem C7_send_witness:
  "\<not> is_connected (WebSocketClient_init 10 10 True 0 :: string WebSocketClient) \<and>
   fst (send_json SendOk [(''op'', JStr ''ping'')]
          (WebSocketClient_init 10 10 True 0 :: string WebSocketClient)) = Return False \<and>
   is_connected (connected_client 0) \<and>
   fst (send_json (SendRaises OtherError) [(''op'', JStr ''ping'')] (connected_client 0)) =
     Return False \<and>
   fst (send_text (SendRaises OtherError) ''ping'' (connected_client 0)) = Return False \<and>
   fst (send_text SendOk ''ping'' (connected_client 0)) = Return True"
proof -
  let ?c0 = "WebSocketClient_init 10 10 True 0 :: string WebSocketClient"
  have a: "\<not> is_connected ?c0" by (simp add: is_connected_def WebSocketClient_init_def)
  have b: "is_connected (connected_client 0)" by (simp add: is_connected_def connected_client_eq)
  from C7_send_returns_false_and_never_raises
         [of SendOk "[(''op'', JStr ''ping'')]" ?c0 "''ping''" OtherError] a
       C7_send_returns_false_and_never_raises
         [of SendOk "[(''op'', JStr ''ping'')]" "connected_client 0" "''ping''" OtherError] b
  show ?thesis by simp
qed

text \<open>
  Claim C8 says that a heartbeat payload that is a generator callable is called on every
  heartbeat and its result sent. It fails: with a callable stored in
  \<^verbatim>\<open>heartbeat_msg\<close> of a connected client, \<^verbatim>\<open>_send_heartbeat\<close> takes the last
  branch, logs a warning ("unsupported heartbeat message type") and hands nothing to the
  socket.
\<close>

theorem C8_callable_payload_is_not_sent:
  "is_connected (client_with_payload (PCallable ''make_ping'')) \<and>
   send_heartbeat SendOk (client_with_payload (PCallable ''make_ping'')) =
     (Return (), emit (Log WARNING ''unsupported heartbeat message type'')
                   (client_with_payload (PCallable ''make_ping''))) \<and>
   sent_frames (trace (snd (send_heartbeat SendOk
                              (client_with_payload (PCallable ''make_ping''))))) = []"
  by (simp add: client_with_payload_def connected_client_eq is_connected_def
        send_heartbeat_def emit_def)

text \<open>
  Claim C8, amended. The heartbeat sender sends a static payload only. On a connected
  client it never raises; a non-empty dict is handed to \<^verbatim>\<open>send_json\<close> and a
  non-empty string to \<^verbatim>\<open>send_str\<close> on every invocation, as stored; for a callable
  nothing is handed to the socket, the callable is not called, and a warning is logged.
\<close>

theorem C8_heartbeat_sends_static_payload_only:
  assumes "is_connected c"
  shows "fst (send_heartbeat t c) = Return () \<and>
         (heartbeat_msg c = PDict d \<and> d \<noteq> [] \<longrightarrow>
            sent_frames (trace (snd (send_heartbeat t c))) =
              sent_frames (trace c) @ [WsSendJson d]) \<and>
         (heartbeat_msg c = PStr s \<and> s \<noteq> [] \<longrightarrow>
            sent_frames (trace (snd (send_heartbeat t c))) =
              sent_frames (trace c) @ [WsSendStr s]) \<and>
         (heartbeat_msg c = PCallable g \<longrightarrow>
            send_heartbeat t c =
              (Return (), emit (Log WARNING ''unsupported heartbeat message type'') c) \<and>
            sent_frames (trace (snd (send_heartbeat t c))) = sent_frames (trace c))"
  using assms
  by (cases t; cases "heartbeat_msg c")
     (auto simp: send_heartbeat_def ws_send_json_def ws_send_str_def emit_def sent_frames_append)

theorem C8_heartbeat_witness:
  "is_connected (client_with_payload (PDict [(''op'', JStr ''ping'')])) \<and>
   heartbeat_msg (client_with_payload (PDict [(''op'', JStr ''ping'')])) =
     PDict [(''op'', JStr ''ping'')] \<and>
   sent_frames (trace (snd (send_heartbeat SendOk
       (client_with_payload (PDict [(''op'', JStr ''ping'')]))))) =
     [WsSendJson [(''op'', JStr ''ping'')]] \<and>
   is_connected (client_with_payload (PCallable ''make_ping'')) \<and>
   sent_frames (trace (snd (send_heartbeat SendOk
       (client_with_payload (PCallable ''make_ping''))))) = []"
proof -
  let ?cd = "client_with_payload (PDict [(''op'', JStr ''ping'')])"
  let ?cg = "client_with_payload (PCallable ''make_ping'')"
  have a: "is_connected ?cd" and b: "is_connected ?cg"
    and m: "heartbeat_msg ?cd = PDict [(''op'', JStr ''ping'')]"
    and g: "heartbeat_msg ?cg = PCallable ''make_ping''"
    and t: "sent_frames (trace ?cd) = []" "sent_frames (trace ?cg) = []"
    by (simp_all add: client_with_payload_def connected_client_eq is_connected_def)
  from C8_heartbeat_sends_static_payload_only[OF a, of SendOk "[(''op'', JStr ''ping'')]"] m t
  have A: "sent_frames (trace (snd (send_heartbeat SendOk ?cd))) =
             [WsSendJson [(''op'', JStr ''ping'')]]" by simp
  from C8_heartbeat_sends_static_payload_only[OF b, of SendOk _ _ "''make_ping''"] g
  have "sent_frames (trace (snd (send_heartbeat SendOk ?cg))) = sent_frames (trace ?cg)"
    by blast
  with t have B: "sent_frames (trace (snd (send_heartbeat SendOk ?cg))) = []" by simp
  from a b m A B show ?thesis by blast
qed

lemma closed_during_backoff_eq:
  "closed_during_backoff =
     \<lparr>check_conn_interval = 10, send_hb_interval = 10, auto_reconnect = True,
      max_reconnect_attempts = 0, session = Some True, ws = Some True,
      state = CLOSED, reconnect_count = 1, heartbeat_msg = PNone,
      check_task_id = None, heartbeat_task_id = None,
      trace = [Log INFO ''connecting'', WsConnect, WsConnected, Log INFO ''connected'',
               OnConnect, SpawnReceiveLoop, OnDisconnect, Log INFO ''reconnect scheduled'',
               Sleep 2, Log INFO ''disconnecting'', WsClose, SessionClose,
               Log INFO ''disconnected'']\<rparr>"
  by (simp add: closed_during_backoff_def connected_client_eq handle_disconnect_begin_def
        reconnect_begin_def disconnect_def emit_def Let_def)

text \<open>
  Claim C1 says that once \<^verbatim>\<open>disconnect\<close> has set the state to Closed nothing
  re-enters Connecting, and that a \<^verbatim>\<open>disconnect\<close> during the backoff sleep keeps the
  pending \<^verbatim>\<open>connect\<close> from firing. The code at that input: a connected client loses
  its socket, \<^verbatim>\<open>_handle_disconnect\<close> enters the sleep of 2 in state Reconnecting,
  \<^verbatim>\<open>disconnect\<close> sets Closed, and when the sleep is over \<^verbatim>\<open>connect\<close> passes its
  guard, sets Connecting, and ends in Disconnected (the session is closed by then).
  \<^verbatim>\<open>_handle_disconnect\<close> tests for Closed on entry; \<^verbatim>\<open>_reconnect\<close> does not
  test again after the sleep.
\<close>

theorem C1_connect_fires_after_disconnect_during_backoff:
  "handle_disconnect_begin (connected_client 0) =
     (Sleeping 2, snd (handle_disconnect_begin (connected_client 0))) \<and>
   state (snd (handle_disconnect_begin (connected_client 0))) = RECONNECTING \<and>
   state closed_during_backoff = CLOSED \<and>
   fst (connect_begin closed_during_backoff) = True \<and>
   state (snd (connect_begin closed_during_backoff)) = CONNECTING \<and>
   state (reconnect_resume Established closed_during_backoff) = DISCONNECTED \<and>
   state (reconnect_resume RaisesClientError closed_during_backoff) = DISCONNECTED"
  by (simp add: closed_during_backoff_eq connected_client_eq handle_disconnect_begin_def
        reconnect_begin_def reconnect_resume_def connect_def connect_begin_def
        connect_finish_def emit_def Let_def)

text \<open>No connection in state Closed stays there when \<^verbatim>\<open>connect\<close> is called.\<close>

lemma closed_is_left_by_connect:
  "state c = CLOSED \<Longrightarrow>
   fst (connect_begin c) = True \<and> state (snd (connect_begin c)) = CONNECTING \<and>
   state (snd (connect answer c)) \<noteq> CLOSED"
  by (cases answer)
     (simp_all add: connect_def connect_begin_def connect_finish_def emit_def Let_def)

lemma after_failed_reconnect_eq:
  "after_failed_reconnect =
     \<lparr>check_conn_interval = 10, send_hb_interval = 10, auto_reconnect = True,
      max_reconnect_attempts = 2, session = Some False, ws = Some False,
      state = DISCONNECTED, reconnect_count = 1, heartbeat_msg = PNone,
      check_task_id = None, heartbeat_task_id = None,
      trace = [Log INFO ''connecting'', WsConnect, WsConnected, Log INFO ''connected'',
               OnConnect, SpawnReceiveLoop, OnDisconnect, Log INFO ''reconnect scheduled'',
               Sleep 2, Log INFO ''connecting'', WsConnect, Log ERROR ''connect failed'']\<rparr>"
  by (simp add: after_failed_reconnect_def connected_client_eq handle_disconnect_def
        handle_disconnect_begin_def reconnect_begin_def reconnect_resume_def connect_def
        connect_begin_def connect_finish_def emit_def Let_def)

text \<open>
  Claim C3 says that with at most 2 attempts configured and every connect attempt
  failing, two attempts are issued and exhaustion is logged after the second. The code
  at that input: after the socket is lost, \<^verbatim>\<open>_handle_disconnect\<close> sleeps 2 and calls
  \<^verbatim>\<open>connect\<close> once; the handshake fails, \<^verbatim>\<open>connect\<close> returns false, and
  \<^verbatim>\<open>_reconnect\<close> returns without looking at the result. That is one attempt; the
  counter stays at 1, below the maximum, exhaustion is not logged, no receive loop is
  started, and the liveness check does nothing in state Disconnected, whether or not the
  socket reports closed. No second attempt follows.
\<close>

theorem C3_one_attempt_and_no_exhaustion_logged:
  "state after_failed_reconnect = DISCONNECTED \<and>
   reconnect_count after_failed_reconnect = 1 \<and>
   max_reconnect_attempts after_failed_reconnect = 2 \<and>
   count_list (trace after_failed_reconnect) (Sleep 2) = 1 \<and>
   attempts_since_connected (trace after_failed_reconnect) = 1 \<and>
   count_list (trace after_failed_reconnect) WsConnect = 2 \<and>
   count_list (trace after_failed_reconnect) SpawnReceiveLoop = 1 \<and>
   count_list (trace after_failed_reconnect) (Log ERROR ''max reconnect attempts reached'') = 0 \<and>
   check_connection after_failed_reconnect = (Finished, after_failed_reconnect) \<and>
   check_connection (after_failed_reconnect\<lparr>ws := Some True\<rparr>) =
     (Finished, after_failed_reconnect\<lparr>ws := Some True\<rparr>)"
proof -
  note eq = after_failed_reconnect_eq
  have fields: "state after_failed_reconnect = DISCONNECTED"
    "reconnect_count after_failed_reconnect = 1" "max_reconnect_attempts after_failed_reconnect = 2"
    "ws after_failed_reconnect = Some False"
    by (simp_all add: eq)
  have events: "count_list (trace after_failed_reconnect) (Sleep 2) = 1"
    "attempts_since_connected (trace after_failed_reconnect) = 1"
    "count_list (trace after_failed_reconnect) WsConnect = 2"
    "count_list (trace after_failed_reconnect) SpawnReceiveLoop = 1"
    "count_list (trace after_failed_reconnect) (Log ERROR ''max reconnect attempts reached'') = 0"
    by (simp_all add: eq attempts_since_connected_def)
  have idle: "check_connection after_failed_reconnect = (Finished, after_failed_reconnect)"
    using fields by (simp add: check_connection_def)
  have idle': "check_connection (after_failed_reconnect\<lparr>ws := Some True\<rparr>) =
                 (Finished, after_failed_reconnect\<lparr>ws := Some True\<rparr>)"
    using fields by (simp add: check_connection_def)
  from fields(1-3) events idle idle' show ?thesis by blast
qed

section \<open>Properties of the subscription registry\<close>



end
